theory Spec2Isabelle
  imports Complex_Main
begin

section \<open>Strings and byte strings\<close>

text \<open>
  Both Python \<open>bytes\<close> and Python \<open>str\<close> are modelled as \<open>string\<close> (a list of 8-bit
  characters); a \<open>str\<close> is represented by its UTF-8 encoding. Every string operation the
  program uses (\<open>startswith\<close> of an ASCII literal, slicing off an ASCII prefix, equality,
  \<open>split\<close> and \<open>join\<close> on an ASCII separator, concatenation) gives the same result on the
  UTF-8 bytes as on the code points, because an ASCII byte never occurs inside a
  multi-byte sequence.
\<close>

definition startswith :: "string \<Rightarrow> string \<Rightarrow> bool" where
  "startswith s p = (take (length p) s = p)"

text \<open>\<open>s.split(sep)\<close> for a one-character separator: never returns the empty list.\<close>

fun split :: "char \<Rightarrow> string \<Rightarrow> string list" where
  "split sep [] = [[]]"
| "split sep (c # cs) =
     (if c = sep then [] # split sep cs
      else (case split sep cs of
              [] \<Rightarrow> [[c]]
            | w # ws \<Rightarrow> (c # w) # ws))"

text \<open>\<open>sep.join(xs)\<close>.\<close>

fun join :: "string \<Rightarrow> string list \<Rightarrow> string" where
  "join sep [] = []"
| "join sep [x] = x"
| "join sep (x # y # ys) = x @ sep @ join sep (y # ys)"

section \<open>POSIX path functions (\<open>posixpath\<close>)\<close>

text \<open>\<open>os.path.join(a, b)\<close> with one component to add.\<close>

definition path_join :: "string \<Rightarrow> string \<Rightarrow> string" where
  "path_join a b =
     (if startswith b ''/'' then b
      else if a = [] \<or> last a = CHR ''/'' then a @ b
      else a @ ''/'' @ b)"

text \<open>
  One iteration of the component loop of \<open>os.path.normpath\<close>: \<open>init\<close> is
  \<open>initial_slashes\<close>, \<open>new\<close> is \<open>new_comps\<close>, \<open>c\<close> is \<open>comp\<close>.
\<close>

definition norm_step :: "nat \<Rightarrow> string list \<Rightarrow> string \<Rightarrow> string list" where
  "norm_step init new c =
     (if c = [] \<or> c = ''.'' then new
      else if c \<noteq> ''..'' \<or> (init = 0 \<and> new = []) \<or> (new \<noteq> [] \<and> last new = ''..'')
        then new @ [c]
      else if new \<noteq> [] then butlast new
      else new)"

definition initial_slashes :: "string \<Rightarrow> nat" where
  "initial_slashes path =
     (if startswith path ''/'' then
        (if startswith path ''//'' \<and> \<not> startswith path ''///'' then 2 else 1)
      else 0)"

definition normpath :: "string \<Rightarrow> string" where
  "normpath path =
     (if path = [] then ''.''
      else
        let init = initial_slashes path;
            comps = foldl (norm_step init) [] (split CHR ''/'' path);
            p = replicate init CHR ''/'' @ join ''/'' comps
        in if p = [] then ''.'' else p)"

section \<open>Exceptions\<close>

text \<open>
  The exceptions the program can meet. Each carries what \<open>str(e)\<close> needs; the quoting of
  a file name inside a message follows \<open>repr\<close> for names without quotes, backslashes or
  unprintable characters.
\<close>

datatype exn =
    SocketTimeout
  | ConnectionRefusedError
  | ConnectionError string
  | UnicodeDecodeError
  | UnicodeEncodeError
  | ValueError string
  | ZeroDivisionError
  | FileNotFoundError string
  | IsADirectoryError string
  | NotADirectoryError string

fun str_exn :: "exn \<Rightarrow> string" where
  "str_exn SocketTimeout = ''timed out''"
| "str_exn ConnectionRefusedError = ''[Errno 111] Connection refused''"
| "str_exn (ConnectionError m) = m"
| "str_exn UnicodeDecodeError = ''invalid utf-8''"
| "str_exn UnicodeEncodeError = ''surrogates not allowed''"
| "str_exn (ValueError m) = m"
| "str_exn ZeroDivisionError = ''division by zero''"
| "str_exn (FileNotFoundError p) = ''[Errno 2] No such file or directory: '' @ [CHR 0x27] @ p @ [CHR 0x27]"
| "str_exn (IsADirectoryError p) = ''[Errno 21] Is a directory: '' @ [CHR 0x27] @ p @ [CHR 0x27]"
| "str_exn (NotADirectoryError p) = ''[Errno 20] Not a directory: '' @ [CHR 0x27] @ p @ [CHR 0x27]"

section \<open>UTF-8\<close>

text \<open>
  \<open>bytes.decode()\<close> raises on ill-formed UTF-8 (overlong forms, surrogates and code
  points above U+10FFFF included); since a \<open>str\<close> is kept as its UTF-8 bytes, decoding
  is the identity on well-formed input. \<open>str.encode()\<close> raises on a \<open>str\<close> holding
  surrogate escapes, that is, on bytes that are not well-formed UTF-8.
\<close>

definition byte :: "char \<Rightarrow> nat" where
  "byte c = of_char c"

definition cont :: "char \<Rightarrow> bool" where
  "cont c = (0x80 \<le> byte c \<and> byte c \<le> 0xBF)"

fun utf8_valid :: "string \<Rightarrow> bool" where
  "utf8_valid [] = True"
| "utf8_valid [a] = (byte a < 0x80)"
| "utf8_valid [a, b] =
     (if byte a < 0x80 then utf8_valid [b]
      else 0xC2 \<le> byte a \<and> byte a \<le> 0xDF \<and> cont b)"
| "utf8_valid [a, b, c] =
     (if byte a < 0x80 then utf8_valid [b, c]
      else if 0xC2 \<le> byte a \<and> byte a \<le> 0xDF then cont b \<and> utf8_valid [c]
      else if byte a = 0xE0 then 0xA0 \<le> byte b \<and> byte b \<le> 0xBF \<and> cont c
      else if byte a = 0xED then 0x80 \<le> byte b \<and> byte b \<le> 0x9F \<and> cont c
      else 0xE1 \<le> byte a \<and> byte a \<le> 0xEF \<and> cont b \<and> cont c)"
| "utf8_valid (a # b # c # d # r) =
     (if byte a < 0x80 then utf8_valid (b # c # d # r)
      else if 0xC2 \<le> byte a \<and> byte a \<le> 0xDF then cont b \<and> utf8_valid (c # d # r)
      else if byte a = 0xE0 then 0xA0 \<le> byte b \<and> byte b \<le> 0xBF \<and> cont c \<and> utf8_valid (d # r)
      else if byte a = 0xED then 0x80 \<le> byte b \<and> byte b \<le> 0x9F \<and> cont c \<and> utf8_valid (d # r)
      else if 0xE1 \<le> byte a \<and> byte a \<le> 0xEF then cont b \<and> cont c \<and> utf8_valid (d # r)
      else if byte a = 0xF0 then 0x90 \<le> byte b \<and> byte b \<le> 0xBF \<and> cont c \<and> cont d \<and> utf8_valid r
      else if byte a = 0xF4 then 0x80 \<le> byte b \<and> byte b \<le> 0x8F \<and> cont c \<and> cont d \<and> utf8_valid r
      else 0xF1 \<le> byte a \<and> byte a \<le> 0xF3 \<and> cont b \<and> cont c \<and> cont d \<and> utf8_valid r)"

definition decode :: "string \<Rightarrow> exn + string" where
  "decode bs = (if utf8_valid bs then Inr bs else Inl UnicodeDecodeError)"

definition encode :: "string \<Rightarrow> exn + string" where
  "encode s = (if utf8_valid s then Inr s else Inl UnicodeEncodeError)"

section \<open>The file system\<close>

text \<open>
  A POSIX tree without symbolic links: a regular file holds its bytes, a directory holds
  its \<open>st_size\<close> and its entries. A process sees it from a current directory, given as
  the list of names leading to it from the root.
\<close>

datatype node = File string | Dir nat "(string \<times> node) list"

record filesystem =
  root :: node
  cwd :: "string list"

fun walk :: "node \<Rightarrow> string list \<Rightarrow> node option" where
  "walk n [] = Some n"
| "walk (File bs) (c # cs) = None"
| "walk (Dir sz es) (c # cs) =
     (case map_of es c of None \<Rightarrow> None | Some m \<Rightarrow> walk m cs)"

text \<open>
  The kernel's path walk: each component is looked up in the directory reached so far
  (which must be a directory); \<open>..\<close> goes to the parent, and the root is its own parent.
\<close>

fun resolve_from :: "node \<Rightarrow> string list \<Rightarrow> string list \<Rightarrow> string list option" where
  "resolve_from r cur [] = Some cur"
| "resolve_from r cur (c # cs) =
     (case walk r cur of
        Some (Dir sz es) \<Rightarrow>
          (if c = [] \<or> c = ''.'' then resolve_from r cur cs
           else if c = ''..'' then resolve_from r (butlast cur) cs
           else (case map_of es c of
                   None \<Rightarrow> None
                 | Some m \<Rightarrow> resolve_from r (cur @ [c]) cs))
      | _ \<Rightarrow> None)"

definition lookup_path :: "filesystem \<Rightarrow> string \<Rightarrow> node option" where
  "lookup_path fs p =
     (if p = [] \<or> CHR 0x00 \<in> set p then None
      else (case resolve_from (root fs) (if startswith p ''/'' then [] else cwd fs)
                   (split CHR ''/'' p) of
              None \<Rightarrow> None
            | Some loc \<Rightarrow> walk (root fs) loc))"

definition exists :: "filesystem \<Rightarrow> string \<Rightarrow> bool" where
  "exists fs p = (lookup_path fs p \<noteq> None)"

definition isfile :: "filesystem \<Rightarrow> string \<Rightarrow> bool" where
  "isfile fs p = (case lookup_path fs p of Some (File bs) \<Rightarrow> True | _ \<Rightarrow> False)"

definition getsize :: "filesystem \<Rightarrow> string \<Rightarrow> exn + nat" where
  "getsize fs p =
     (case lookup_path fs p of
        None \<Rightarrow> Inl (FileNotFoundError p)
      | Some (File bs) \<Rightarrow> Inr (length bs)
      | Some (Dir sz es) \<Rightarrow> Inr sz)"

definition listdir :: "filesystem \<Rightarrow> string \<Rightarrow> exn + string list" where
  "listdir fs p =
     (case lookup_path fs p of
        None \<Rightarrow> Inl (FileNotFoundError p)
      | Some (File bs) \<Rightarrow> Inl (NotADirectoryError p)
      | Some (Dir sz es) \<Rightarrow> Inr (map fst es))"

text \<open>\<open>open(p, 'rb')\<close>: the bytes the file object will deliver.\<close>

definition open_rb :: "filesystem \<Rightarrow> string \<Rightarrow> exn + string" where
  "open_rb fs p =
     (if CHR 0x00 \<in> set p then Inl (ValueError ''embedded null byte'')
      else (case lookup_path fs p of
              None \<Rightarrow> Inl (FileNotFoundError p)
            | Some (File bs) \<Rightarrow> Inr bs
            | Some (Dir sz es) \<Rightarrow> Inl (IsADirectoryError p)))"

section \<open>Connections\<close>

text \<open>
  One end of a TCP connection. \<open>inbox\<close> scripts what the peer and the network will do:
  each entry is a segment of bytes that arrives (the empty segment is the peer's
  end-of-stream) or an error the next read raises; when it is exhausted nothing arrives
  any more. \<open>send_errors\<close> scripts the outcome of the successive writes (\<open>None\<close> or an
  exhausted script: the transport takes the whole buffer; \<open>Some e\<close>: the write raises
  \<open>e\<close> and nothing of it is transmitted). \<open>outbox\<close> collects the buffers written, in
  order, and \<open>close_calls\<close> counts the calls of \<open>close()\<close>.
\<close>

record conn =
  inbox :: "(exn + string) list"
  send_errors :: "exn option list"
  outbox :: "string list"
  close_calls :: nat

text \<open>\<open>recv(n)\<close> on a socket without timeout: \<open>None\<close> when the call blocks for ever.\<close>

definition recv_blocking :: "nat \<Rightarrow> conn \<Rightarrow> ((exn + string) \<times> conn) option" where
  "recv_blocking n c =
     (case inbox c of
        [] \<Rightarrow> None
      | Inl e # rest \<Rightarrow> Some (Inl e, c\<lparr>inbox := rest\<rparr>)
      | Inr d # rest \<Rightarrow>
          (if length d \<le> n then Some (Inr d, c\<lparr>inbox := rest\<rparr>)
           else Some (Inr (take n d), c\<lparr>inbox := Inr (drop n d) # rest\<rparr>)))"

text \<open>\<open>recv(n)\<close> after \<open>settimeout(60)\<close>: when nothing arrives the call raises.\<close>

definition recv :: "nat \<Rightarrow> conn \<Rightarrow> (exn + string) \<times> conn" where
  "recv n c =
     (case recv_blocking n c of
        None \<Rightarrow> (Inl SocketTimeout, c)
      | Some r \<Rightarrow> r)"

text \<open>\<open>send(data)\<close> and \<open>sendall(data)\<close>; the result is the exception raised, if any.\<close>

definition send :: "string \<Rightarrow> conn \<Rightarrow> exn option \<times> conn" where
  "send data c =
     (case send_errors c of
        [] \<Rightarrow> (None, c\<lparr>outbox := outbox c @ [data]\<rparr>)
      | None # rest \<Rightarrow> (None, c\<lparr>send_errors := rest, outbox := outbox c @ [data]\<rparr>)
      | Some e # rest \<Rightarrow> (Some e, c\<lparr>send_errors := rest\<rparr>))"

text \<open>\<open>close()\<close>; an exception it raises is swallowed at each call site.\<close>

definition close :: "conn \<Rightarrow> conn" where
  "close c = c\<lparr>close_calls := close_calls c + 1\<rparr>"

section \<open>Numbers\<close>

text \<open>\<open>str(n)\<close> for a natural number.\<close>

fun show_nat :: "nat \<Rightarrow> string" where
  "show_nat n =
     (if n < 10 then [''0123456789'' ! n]
      else show_nat (n div 10) @ [''0123456789'' ! (n mod 10)])"

declare show_nat.simps [simp del]

text \<open>
  Python's true division raises on a zero divisor. Floats are modelled by the reals.
\<close>

definition py_div :: "real \<Rightarrow> real \<Rightarrow> exn + real" where
  "py_div x y = (if y = 0 then Inl ZeroDivisionError else Inr (x / y))"

text \<open>
  \<open>(file_size / 1024 / 1024) / duration if duration > 0 else 0\<close>, as both the server
  and the client compute it.
\<close>

definition transfer_rate :: "int \<Rightarrow> real \<Rightarrow> exn + real" where
  "transfer_rate file_size duration =
     (if duration > 0 then
        (case py_div (real_of_int file_size) 1024 of
           Inl e \<Rightarrow> Inl e
         | Inr a \<Rightarrow>
             (case py_div a 1024 of
                Inl e \<Rightarrow> Inl e
              | Inr b \<Rightarrow> py_div b duration))
      else Inr 0)"

section \<open>The server (\<open>server.py\<close>)\<close>

text \<open>
  The calls of \<open>logging\<close>, one constructor per call site, with the values the message
  is formatted from (the client's address is left out).
\<close>

datatype log_event =
    Warn_invalid_request string
  | Warn_path_traversal string
  | Info_file_not_found string
  | Info_file_sent string nat
  | Info_transfer_rate real real
  | Error_sending_file exn
  | Info_file_list_sent
  | Error_sending_file_list exn
  | Error_handling_client exn
  | Info_connection_closed int

text \<open>
  \<open>FileTransferServer\<close>: the attributes the handlers use, and the lines logged so far.
  \<open>buffer_size\<close> is whatever integer the command line gave.
\<close>

record server =
  directory :: string
  buffer_size :: int
  active_connections :: int
  log :: "log_event list"

definition logging :: "log_event \<Rightarrow> server \<Rightarrow> server" where
  "logging ev srv = srv\<lparr>log := log srv @ [ev]\<rparr>"

text \<open>
  \<open>file.read(n)\<close> on the bytes not yet read: a negative \<open>n\<close> reads to the end of the
  file, \<open>n = 0\<close> reads nothing.
\<close>

definition file_read :: "int \<Rightarrow> string \<Rightarrow> string" where
  "file_read n rest = (if n < 0 then rest else take (nat n) rest)"

text \<open>
  The loop of \<open>send_file\<close>, lines 128 to 133: \<open>rest\<close> is what the file object has not
  delivered yet; the result holds the exception that ended the loop, if any, the
  connection, and \<open>bytes_sent\<close>.
\<close>

function stream :: "int \<Rightarrow> string \<Rightarrow> conn \<Rightarrow> nat \<Rightarrow> exn option \<times> conn \<times> nat" where
  "stream bs rest c bytes_sent =
     (if file_read bs rest = [] then (None, c, bytes_sent)
      else (case send (file_read bs rest) c of
              (Some e, c') \<Rightarrow> (Some e, c', bytes_sent)
            | (None, c') \<Rightarrow>
                stream bs (drop (length (file_read bs rest)) rest) c'
                  (bytes_sent + length (file_read bs rest))))"
  by pat_completeness auto
termination
  by (relation "measure (\<lambda>(bs, rest, c, n). length rest)") (auto simp: file_read_def)

declare stream.simps [simp del]

text \<open>The \<open>except\<close> clause of \<open>send_file\<close> and of \<open>list_files\<close>: best effort.\<close>

definition send_error_best_effort :: "exn \<Rightarrow> conn \<Rightarrow> conn" where
  "send_error_best_effort e c =
     (case encode (''ERROR:'' @ str_exn e) of
        Inl e' \<Rightarrow> c
      | Inr msg \<Rightarrow> snd (send msg c))"

text \<open>
  The \<open>try\<close> block of \<open>send_file\<close>, lines 109 to 141. \<open>t0\<close> and \<open>t1\<close> are the two
  readings of \<open>time.time()\<close>.
\<close>

definition send_file_try ::
  "filesystem \<Rightarrow> real \<times> real \<Rightarrow> server \<Rightarrow> conn \<Rightarrow> string \<Rightarrow> string \<Rightarrow> exn option \<times> server \<times> conn" where
  "send_file_try fs clock srv c filename filepath =
     (if \<not> exists fs filepath then
        (case send ''ERROR:File not found'' (c) of
           (r, c1) \<Rightarrow> (r, logging (Info_file_not_found filepath) srv, c1))
      else
        (case getsize fs filepath of
           Inl e \<Rightarrow> (Some e, srv, c)
         | Inr file_size \<Rightarrow>
        (case send (''SIZE:'' @ show_nat file_size) c of
           (Some e, c1) \<Rightarrow> (Some e, srv, c1)
         | (None, c1) \<Rightarrow>
        (case recv 1024 c1 of
           (Inl e, c2) \<Rightarrow> (Some e, srv, c2)
         | (Inr response, c2) \<Rightarrow>
        (if response \<noteq> ''READY'' then (None, srv, c2)
         else
        (case open_rb fs filepath of
           Inl e \<Rightarrow> (Some e, srv, c2)
         | Inr contents \<Rightarrow>
        (case stream (buffer_size srv) contents c2 0 of
           (Some e, c3, bytes_sent) \<Rightarrow> (Some e, srv, c3)
         | (None, c3, bytes_sent) \<Rightarrow>
        (case transfer_rate (int file_size) (snd clock - fst clock) of
           Inl e \<Rightarrow> (Some e, srv, c3)
         | Inr rate \<Rightarrow>
             (None,
              logging (Info_transfer_rate rate (snd clock - fst clock))
                (logging (Info_file_sent filename file_size) srv),
              c3)))))))))"

text \<open>
  \<open>send_file\<close>. The write of the access-denied response is outside the \<open>try\<close>, so its
  exception reaches the caller; everything else is caught here.
\<close>

definition send_file ::
  "filesystem \<Rightarrow> real \<times> real \<Rightarrow> server \<Rightarrow> conn \<Rightarrow> string \<Rightarrow> exn option \<times> server \<times> conn" where
  "send_file fs clock srv c filename =
     (let filepath = path_join (directory srv) filename;
          normalized_path = normpath filepath
      in if \<not> startswith normalized_path (normpath (directory srv)) then
           (case send ''ERROR:Access denied'' c of
              (r, c1) \<Rightarrow> (r, logging (Warn_path_traversal filename) srv, c1))
         else
           (case send_file_try fs clock srv c filename filepath of
              (None, srv1, c1) \<Rightarrow> (None, srv1, c1)
            | (Some e, srv1, c1) \<Rightarrow>
                (None, logging (Error_sending_file e) srv1, send_error_best_effort e c1)))"

text \<open>\<open>list_files\<close> (server side).\<close>

definition list_files :: "filesystem \<Rightarrow> server \<Rightarrow> conn \<Rightarrow> server \<times> conn" where
  "list_files fs srv c =
     (case listdir fs (directory srv) of
        Inl e \<Rightarrow> (logging (Error_sending_file_list e) srv, send_error_best_effort e c)
      | Inr names \<Rightarrow>
          (let files = filter (\<lambda>f. isfile fs (path_join (directory srv) f)) names
           in case encode (''FILES:'' @ join '','' files) of
                Inl e \<Rightarrow> (logging (Error_sending_file_list e) srv, send_error_best_effort e c)
              | Inr response \<Rightarrow>
                  (case send response c of
                     (Some e, c1) \<Rightarrow>
                       (logging (Error_sending_file_list e) srv, send_error_best_effort e c1)
                   | (None, c1) \<Rightarrow> (logging Info_file_list_sent srv, c1))))"

text \<open>The \<open>try\<close> block of \<open>handle_client\<close>, lines 76 to 86.\<close>

definition handle_client_try ::
  "filesystem \<Rightarrow> real \<times> real \<Rightarrow> server \<Rightarrow> conn \<Rightarrow> exn option \<times> server \<times> conn" where
  "handle_client_try fs clock srv c =
     (case recv 1024 c of
        (Inl e, c1) \<Rightarrow> (Some e, srv, c1)
      | (Inr bytes, c1) \<Rightarrow>
          (case decode bytes of
             Inl e \<Rightarrow> (Some e, srv, c1)
           | Inr request \<Rightarrow>
               (if startswith request ''GET:'' then send_file fs clock srv c1 (drop 4 request)
                else if request = ''LIST'' then
                  (case list_files fs srv c1 of (srv1, c2) \<Rightarrow> (None, srv1, c2))
                else
                  (case send ''ERROR:Invalid request'' c1 of
                     (r, c2) \<Rightarrow> (r, logging (Warn_invalid_request request) srv, c2)))))"

text \<open>
  \<open>handle_client\<close>: the \<open>except\<close> clause logs, the \<open>finally\<close> clause closes the
  connection and decrements the count whatever happened before.
\<close>

definition handle_client ::
  "filesystem \<Rightarrow> real \<times> real \<Rightarrow> server \<Rightarrow> conn \<Rightarrow> server \<times> conn" where
  "handle_client fs clock srv c =
     (case handle_client_try fs clock srv c of
        (r, srv1, c1) \<Rightarrow>
          (let srv2 = (case r of None \<Rightarrow> srv1 | Some e \<Rightarrow> logging (Error_handling_client e) srv1);
               c2 = close c1;
               srv3 = srv2\<lparr>active_connections := active_connections srv2 - 1\<rparr>
           in (logging (Info_connection_closed (active_connections srv3)) srv3, c2)))"

section \<open>The client (\<open>client.py\<close>)\<close>

text \<open>
  \<open>int(s)\<close> on ASCII input: surrounding white space, an optional sign, decimal digits
  with single underscores between them. (Python also accepts the decimal digits of other
  scripts; they are rejected here.)
\<close>

definition is_space :: "char \<Rightarrow> bool" where
  "is_space c = (byte c \<in> {0x09, 0x0A, 0x0B, 0x0C, 0x0D, 0x1C, 0x1D, 0x1E, 0x1F, 0x20})"

definition is_digit :: "char \<Rightarrow> bool" where
  "is_digit c = (0x30 \<le> byte c \<and> byte c \<le> 0x39)"

definition strip :: "string \<Rightarrow> string" where
  "strip s = rev (dropWhile is_space (rev (dropWhile is_space s)))"

fun parse_digits :: "nat \<Rightarrow> bool \<Rightarrow> string \<Rightarrow> nat option" where
  "parse_digits acc after_digit [] = (if after_digit then Some acc else None)"
| "parse_digits acc after_digit (c # cs) =
     (if is_digit c then parse_digits (10 * acc + (byte c - 0x30)) True cs
      else if c = CHR ''_'' \<and> after_digit then parse_digits acc False cs
      else None)"

definition py_int :: "string \<Rightarrow> exn + int" where
  "py_int s =
     (let t = strip s;
          negative = startswith t ''-'';
          body = (if startswith t ''-'' \<or> startswith t ''+'' then drop 1 t else t)
      in case parse_digits 0 False body of
           None \<Rightarrow> Inl (ValueError ''invalid literal for int() with base 10'')
         | Some n \<Rightarrow> Inr (if negative then - int n else int n))"


text \<open>What the client prints, one constructor per \<open>print\<close> that reports an outcome.\<close>

datatype message =
    Print_server_error string
  | Print_file_found int
  | Print_unexpected_response
  | Print_received_successfully
  | Print_transfer_rate real real
  | Print_connection_failed
  | Print_timed_out
  | Print_error_occurred exn
  | Print_available_files "string list"

text \<open>
  The client's world: its socket, the destination file (\<open>None\<close> until it is created),
  the arguments of the progress displays drawn, and the messages printed.
\<close>

record client =
  sock :: conn
  saved :: "string option"
  progress :: "(int \<times> int) list"
  printed :: "message list"

definition print :: "message \<Rightarrow> client \<Rightarrow> client" where
  "print m cl = cl\<lparr>printed := printed cl @ [m]\<rparr>"








text \<open>
  The client's reading of a listing response, lines 86 and 87 of \<open>list_files\<close>:
  the names it prints, when the response is a listing.
\<close>

definition parse_listing :: "string \<Rightarrow> string list option" where
  "parse_listing response =
     (if startswith response ''FILES:'' then Some (split CHR '','' (drop 6 response))
      else None)"

text \<open>\<open>list_files\<close> of the client; \<open>None\<close> when its read blocks for ever.\<close>

definition client_list_files :: "exn option \<Rightarrow> client \<Rightarrow> client option" where
  "client_list_files connect_error cl =
     (case connect_error of
        Some e \<Rightarrow> Some ((print (Print_error_occurred e) cl)\<lparr>sock := close (sock cl)\<rparr>)
      | None \<Rightarrow>
     (case send ''LIST'' (sock cl) of
        (Some e, c1) \<Rightarrow> Some ((print (Print_error_occurred e) cl)\<lparr>sock := close c1\<rparr>)
      | (None, c1) \<Rightarrow>
     (case recv_blocking 8192 c1 of
        None \<Rightarrow> None
      | Some (Inl e, c2) \<Rightarrow> Some ((print (Print_error_occurred e) cl)\<lparr>sock := close c2\<rparr>)
      | Some (Inr bytes, c2) \<Rightarrow>
     (case decode bytes of
        Inl e \<Rightarrow> Some ((print (Print_error_occurred e) cl)\<lparr>sock := close c2\<rparr>)
      | Inr response \<Rightarrow>
          (case parse_listing response of
             Some files \<Rightarrow> Some ((print (Print_available_files files) cl)\<lparr>sock := close c2\<rparr>)
           | None \<Rightarrow> Some ((print (Print_server_error response) cl)\<lparr>sock := close c2\<rparr>))))))"

section \<open>Reading the log\<close>

text \<open>The log line written by the invalid-request branch of \<open>handle_client\<close>.\<close>

fun is_invalid_request :: "log_event \<Rightarrow> bool" where
  "is_invalid_request (Warn_invalid_request r) = True"
| "is_invalid_request ev = False"

section \<open>An example world\<close>

text \<open>
  A file system with a served directory \<open>/srv/files\<close> (a file and a subdirectory), a
  sibling directory outside it, and the server started in \<open>/srv/files\<close>; a connection
  on which nothing has happened yet; a server with one accepted connection.
\<close>

definition example_fs :: filesystem where
  "example_fs =
     \<lparr>root = Dir 4096 [(''srv'', Dir 4096
               [(''files'', Dir 4096 [(''a.txt'', File ''hello''), (''sub'', Dir 4096 [])]),
                (''files_secret'', Dir 4096 [(''key'', File ''secret'')])])],
      cwd = [''srv'', ''files'']\<rparr>"

definition fresh_conn :: "(exn + string) list \<Rightarrow> conn" where
  "fresh_conn script = \<lparr>inbox = script, send_errors = [], outbox = [], close_calls = 0\<rparr>"

definition example_server :: "string \<Rightarrow> server" where
  "example_server d = \<lparr>directory = d, buffer_size = 8192, active_connections = 1, log = []\<rparr>"


section \<open>Basic facts about connections and the handler\<close>

lemma send_outbox:
  "send m c = (r, c') \<Longrightarrow>
     close_calls c' = close_calls c \<and> inbox c' = inbox c \<and>
     (r = None \<longrightarrow> outbox c' = outbox c @ [m]) \<and> (r \<noteq> None \<longrightarrow> outbox c' = outbox c)"
  by (auto simp: send_def split: list.splits option.splits)

lemma send_ok:
  "send_errors c = [] \<or> hd (send_errors c) = None \<Longrightarrow>
     send m c = (None, c\<lparr>send_errors := tl (send_errors c), outbox := outbox c @ [m]\<rparr>)"
  by (cases "send_errors c") (auto simp: send_def split: option.splits)

lemma recv_close_calls:
  "recv n c = (r, c') \<Longrightarrow> close_calls c' = close_calls c \<and> outbox c' = outbox c \<and> send_errors c' = send_errors c"
  by (auto simp: recv_def recv_blocking_def split: list.splits sum.splits if_splits)

lemma recv_head:
  "inbox c = Inr d # rest \<Longrightarrow> length d \<le> n \<Longrightarrow> recv n c = (Inr d, c\<lparr>inbox := rest\<rparr>)"
  by (simp add: recv_def recv_blocking_def)

lemma stream_close_calls:
  "stream bs rest c k = (r, c', k') \<Longrightarrow> close_calls c' = close_calls c \<and> inbox c' = inbox c"
proof (induction bs rest c k rule: stream.induct)
  case (1 bs rest c k)
  show ?case
  proof (cases "file_read bs rest = []")
    case True
    with "1.prems" show ?thesis by (simp add: stream.simps)
  next
    case False
    obtain r1 c1 where s: "send (file_read bs rest) c = (r1, c1)" by (cases "send (file_read bs rest) c")
    show ?thesis
    proof (cases r1)
      case None
      with False s "1.prems" have
        "stream bs (drop (length (file_read bs rest)) rest) c1 (k + length (file_read bs rest)) = (r, c', k')"
        by (simp add: stream.simps)
      from "1.IH"[OF False s[symmetric] _ this] None send_outbox[OF s] show ?thesis by simp
    next
      case (Some e)
      with False s "1.prems" send_outbox[OF s] show ?thesis by (auto simp: stream.simps)
    qed
  qed
qed


lemma send_inv [simp]:
  "close_calls (snd (send m c)) = close_calls c" "inbox (snd (send m c)) = inbox c"
  by (auto simp: send_def split: list.splits option.splits)

lemma recv_inv [simp]:
  "close_calls (snd (recv n c)) = close_calls c" "outbox (snd (recv n c)) = outbox c"
  "send_errors (snd (recv n c)) = send_errors c"
  by (auto simp: recv_def recv_blocking_def split: list.splits sum.splits if_splits)

lemma stream_inv [simp]:
  "close_calls (fst (snd (stream bs rest c k))) = close_calls c"
  using stream_close_calls[of bs rest c k] by (cases "stream bs rest c k") auto

lemma send_error_best_effort_inv [simp]:
  "close_calls (send_error_best_effort e c) = close_calls c"
  by (simp add: send_error_best_effort_def split: sum.split)

lemma send_file_try_inv [simp]:
  "close_calls (snd (snd (send_file_try fs clock srv c filename filepath))) = close_calls c"
  "active_connections (fst (snd (send_file_try fs clock srv c filename filepath))) = active_connections srv"
  by (simp_all add: send_file_try_def case_prod_beta logging_def split: option.split sum.split)

lemma send_file_inv [simp]:
  "close_calls (snd (snd (send_file fs clock srv c filename))) = close_calls c"
  "active_connections (fst (snd (send_file fs clock srv c filename))) = active_connections srv"
  by (simp_all add: send_file_def case_prod_beta logging_def Let_def split: option.split)

lemma list_files_inv [simp]:
  "close_calls (snd (list_files fs srv c)) = close_calls c"
  "active_connections (fst (list_files fs srv c)) = active_connections srv"
  by (simp_all add: list_files_def case_prod_beta logging_def Let_def split: option.split sum.split)

lemma handle_client_try_inv [simp]:
  "close_calls (snd (snd (handle_client_try fs clock srv c))) = close_calls c"
  "active_connections (fst (snd (handle_client_try fs clock srv c))) = active_connections srv"
  by (simp_all add: handle_client_try_def case_prod_beta logging_def split: sum.split)

lemma handle_client_finally:
  "close_calls (snd (handle_client fs clock srv c)) = close_calls c + 1 \<and>
   active_connections (fst (handle_client fs clock srv c)) = active_connections srv - 1"
  by (simp add: handle_client_def case_prod_beta close_def logging_def Let_def split: option.split)


lemma handle_client_outbox:
  "outbox (snd (handle_client fs clock srv c)) = outbox (snd (snd (handle_client_try fs clock srv c)))"
  by (simp add: handle_client_def case_prod_beta close_def Let_def)

lemma handle_client_try_get:
  assumes "inbox c = Inr req # rest" "length req \<le> 1024" "utf8_valid req" "startswith req ''GET:''"
  shows "handle_client_try fs clock srv c = send_file fs clock srv (c\<lparr>inbox := rest\<rparr>) (drop 4 req)"
  using assms by (simp add: handle_client_try_def recv_head decode_def)

lemma recv_not_ready:
  assumes "inbox c = Inr r # rest" "r \<noteq> ''READY''"
  shows "\<exists>r' c'. recv 1024 c = (Inr r', c') \<and> r' \<noteq> ''READY'' \<and> outbox c' = outbox c"
proof (cases "length r \<le> 1024")
  case True
  with assms show ?thesis by (simp add: recv_head)
next
  case False
  then have "length (take 1024 r) = 1024" by simp
  moreover have "length ''READY'' \<noteq> 1024" by simp
  ultimately have "take 1024 r \<noteq> ''READY''" by metis
  with False assms show ?thesis by (simp add: recv_def recv_blocking_def)
qed

lemma getsize_exists: "getsize fs p = Inr n \<Longrightarrow> exists fs p"
  by (auto simp: getsize_def exists_def split: option.splits)

lemma send_file_try_not_ready:
  assumes sz: "getsize fs filepath = Inr n"
    and inb: "inbox c = Inr r # rest" and nr: "r \<noteq> ''READY''"
    and ok: "send_errors c = [] \<or> hd (send_errors c) = None"
  shows "outbox (snd (snd (send_file_try fs clock srv c filename filepath))) = outbox c @ [''SIZE:'' @ show_nat n]
       \<and> fst (send_file_try fs clock srv c filename filepath) = None"
proof -
  let ?c1 = "c\<lparr>send_errors := tl (send_errors c), outbox := outbox c @ [''SIZE:'' @ show_nat n]\<rparr>"
  have s: "send (''SIZE:'' @ show_nat n) c = (None, ?c1)" using ok by (rule send_ok)
  have "inbox ?c1 = Inr r # rest" using inb by simp
  from recv_not_ready[OF this nr] obtain r' c2 where
    rc: "recv 1024 ?c1 = (Inr r', c2)" "r' \<noteq> ''READY''" "outbox c2 = outbox ?c1" by blast
  show ?thesis using getsize_exists[OF sz] sz s rc by (simp add: send_file_try_def)
qed

lemma send_file_not_ready:
  assumes chk: "startswith (normpath (path_join (directory srv) filename)) (normpath (directory srv))"
    and sz: "getsize fs (path_join (directory srv) filename) = Inr n"
    and inb: "inbox c = Inr r # rest" and nr: "r \<noteq> ''READY''"
    and ok: "send_errors c = [] \<or> hd (send_errors c) = None"
  shows "outbox (snd (snd (send_file fs clock srv c filename))) = outbox c @ [''SIZE:'' @ show_nat n]"
  using chk send_file_try_not_ready[OF sz inb nr ok, of clock srv filename]
  by (simp add: send_file_def Let_def case_prod_beta split: option.split)

lemma send_file_try_not_invalid [simp]:
  "filter is_invalid_request (log (fst (snd (send_file_try fs clock srv c filename filepath)))) =
   filter is_invalid_request (log srv)"
  by (simp add: send_file_try_def case_prod_beta logging_def split: option.split sum.split)

lemma send_file_not_invalid [simp]:
  "filter is_invalid_request (log (fst (snd (send_file fs clock srv c filename)))) =
   filter is_invalid_request (log srv)"
  by (simp add: send_file_def case_prod_beta logging_def Let_def split: option.split)

lemma list_files_not_invalid [simp]:
  "filter is_invalid_request (log (fst (list_files fs srv c))) = filter is_invalid_request (log srv)"
  by (simp add: list_files_def case_prod_beta logging_def Let_def split: option.split sum.split)

lemma handle_client_log:
  "filter is_invalid_request (log (fst (handle_client fs clock srv c))) =
   filter is_invalid_request (log (fst (snd (handle_client_try fs clock srv c))))"
  by (simp add: handle_client_def case_prod_beta logging_def Let_def split: option.split)

lemma recv_send_errors: "recv n c = (r, c') \<Longrightarrow> send_errors c' = send_errors c \<and> outbox c' = outbox c"
  using recv_inv(2,3)[of n c] by simp

section \<open>Facts about the example world\<close>

lemmas path_defs = path_join_def normpath_def initial_slashes_def norm_step_def startswith_def
lemmas fs_defs = lookup_path_def example_fs_def startswith_def

lemma example_join [simp]:
  "path_join ''/srv/files'' ''a.txt'' = ''/srv/files/a.txt''"
  "path_join ''/srv/files'' ''sub'' = ''/srv/files/sub''"
  "path_join ''/srv/files'' ''../files_secret/key'' = ''/srv/files/../files_secret/key''"
  "path_join ''.'' ''a.txt'' = ''./a.txt''"
  by (simp_all add: path_defs)

lemma example_normpath [simp]:
  "normpath ''/srv/files'' = ''/srv/files''"
  "normpath ''.'' = ''.''"
  "normpath ''/srv/files/a.txt'' = ''/srv/files/a.txt''"
  "normpath ''/srv/files/sub'' = ''/srv/files/sub''"
  "normpath ''/srv/files/../files_secret/key'' = ''/srv/files_secret/key''"
  "normpath ''./a.txt'' = ''a.txt''"
  by (simp_all add: path_defs)

lemma example_lookup [simp]:
  "lookup_path example_fs ''/srv/files/a.txt'' = Some (File ''hello'')"
  "lookup_path example_fs ''./a.txt'' = Some (File ''hello'')"
  "lookup_path example_fs ''/srv/files/sub'' = Some (Dir 4096 [])"
  "lookup_path example_fs ''/srv/files/../files_secret/key'' = Some (File ''secret'')"
  by (simp_all add: fs_defs)

section \<open>Basic facts about the client\<close>







lemmas int_defs = py_int_def strip_def is_space_def is_digit_def byte_def startswith_def

lemma example_py_int [simp]: "py_int ''10'' = Inr 10" "py_int ''0'' = Inr 0"
  by (simp_all add: int_defs)

section \<open>Throughput\<close>


section \<open>Abandoned transfers and the cleanup of the handler\<close>

text \<open>
  C5. On every path through \<open>handle_client\<close> (normal completion, abandonment, an
  exception) the connection is closed once and the active-connection count goes down by
  exactly one. When the peer answers the \<open>SIZE\<close> message with anything but the five
  bytes \<open>READY\<close> (the empty read of a disconnect included), nothing is written to the
  connection after the \<open>SIZE\<close> message: no payload is streamed.
\<close>

theorem handler_cleans_up_and_never_streams_without_ready:
  "close_calls (snd (handle_client fs clock srv c)) = close_calls c + 1 \<and>
   active_connections (fst (handle_client fs clock srv c)) = active_connections srv - 1 \<and>
   (inbox c = Inr (''GET:'' @ name) # Inr response # rest \<longrightarrow>
    length (''GET:'' @ name) \<le> 1024 \<longrightarrow> utf8_valid (''GET:'' @ name) \<longrightarrow>
    startswith (normpath (path_join (directory srv) name)) (normpath (directory srv)) \<longrightarrow>
    getsize fs (path_join (directory srv) name) = Inr n \<longrightarrow>
    (send_errors c = [] \<or> hd (send_errors c) = None) \<longrightarrow>
    response \<noteq> ''READY'' \<longrightarrow>
    outbox (snd (handle_client fs clock srv c)) = outbox c @ [''SIZE:'' @ show_nat n])"
proof (intro conjI impI)
  assume inb: "inbox c = Inr (''GET:'' @ name) # Inr response # rest"
    and len: "length (''GET:'' @ name) \<le> 1024" and u: "utf8_valid (''GET:'' @ name)"
    and chk: "startswith (normpath (path_join (directory srv) name)) (normpath (directory srv))"
    and sz: "getsize fs (path_join (directory srv) name) = Inr n"
    and ok: "send_errors c = [] \<or> hd (send_errors c) = None"
    and nr: "response \<noteq> ''READY''"
  have g: "handle_client_try fs clock srv c =
             send_file fs clock srv (c\<lparr>inbox := Inr response # rest\<rparr>) name"
    using handle_client_try_get[OF inb len u, of fs clock srv] by (simp add: startswith_def)
  have "outbox (snd (snd (send_file fs clock srv (c\<lparr>inbox := Inr response # rest\<rparr>) name))) =
          outbox c @ [''SIZE:'' @ show_nat n]"
    using send_file_not_ready[OF chk sz _ nr, of "c\<lparr>inbox := Inr response # rest\<rparr>" rest clock] ok
    by simp
  then show "outbox (snd (handle_client fs clock srv c)) = outbox c @ [''SIZE:'' @ show_nat n]"
    by (simp add: handle_client_outbox g)
qed (simp_all add: handle_client_finally)

theorem handler_cleans_up_witness:
  "close_calls (snd (handle_client example_fs (0, 1) (example_server ''/srv/files'')
       (fresh_conn [Inr ''GET:a.txt'', Inr '''']))) = 1 \<and>
   active_connections (fst (handle_client example_fs (0, 1) (example_server ''/srv/files'')
       (fresh_conn [Inr ''GET:a.txt'', Inr '''']))) = 0 \<and>
   outbox (snd (handle_client example_fs (0, 1) (example_server ''/srv/files'')
       (fresh_conn [Inr ''GET:a.txt'', Inr '''']))) = [''SIZE:5'']"
  using handler_cleans_up_and_never_streams_without_ready
    [of example_fs "(0, 1)" "example_server ''/srv/files''"
        "fresh_conn [Inr ''GET:a.txt'', Inr '''']" "''a.txt''" "''''" "[]" 5]
  by (simp add: fresh_conn_def example_server_def startswith_def getsize_def byte_def
        show_nat.simps)

section \<open>Transfers that end early\<close>




section \<open>Empty files\<close>



section \<open>The first read of the handler\<close>

text \<open>
  C6 (as amended). When the handler's first read raises (after 60 seconds without data,
  or with an error) it closes without writing anything to the connection. When the read
  returns bytes that decode to a request that neither starts with \<open>GET:\<close> nor is
  \<open>LIST\<close>, the empty read of a vanished client included, it answers
  \<open>ERROR:Invalid request\<close>. A request that starts with \<open>GET:\<close> or is \<open>LIST\<close> never
  takes the invalid-request branch.
\<close>

theorem first_read_decides_the_invalid_request_response:
  "(fst (recv 1024 c) = Inl e \<longrightarrow>
      outbox (snd (handle_client fs clock srv c)) = outbox c) \<and>
   (fst (recv 1024 c) = Inr request \<longrightarrow> utf8_valid request \<longrightarrow>
      \<not> startswith request ''GET:'' \<longrightarrow> request \<noteq> ''LIST'' \<longrightarrow>
      (send_errors c = [] \<or> hd (send_errors c) = None) \<longrightarrow>
      outbox (snd (handle_client fs clock srv c)) = outbox c @ [''ERROR:Invalid request'']) \<and>
   (fst (recv 1024 c) = Inr request \<longrightarrow>
      (startswith request ''GET:'' \<or> request = ''LIST'') \<longrightarrow>
      filter is_invalid_request (log (fst (handle_client fs clock srv c))) =
      filter is_invalid_request (log srv))"
proof (intro conjI impI)
  assume "fst (recv 1024 c) = Inl e"
  then obtain c1 where r: "recv 1024 c = (Inl e, c1)" by (cases "recv 1024 c") auto
  with recv_send_errors[OF r] show "outbox (snd (handle_client fs clock srv c)) = outbox c"
    by (simp add: handle_client_outbox handle_client_try_def)
next
  assume a: "fst (recv 1024 c) = Inr request" "utf8_valid request"
    "\<not> startswith request ''GET:''" "request \<noteq> ''LIST''"
    "send_errors c = [] \<or> hd (send_errors c) = None"
  then obtain c1 where r: "recv 1024 c = (Inr request, c1)" by (cases "recv 1024 c") auto
  from recv_send_errors[OF r] a(5) have "send_errors c1 = [] \<or> hd (send_errors c1) = None"
    by simp
  from send_ok[OF this] recv_send_errors[OF r] a r
  show "outbox (snd (handle_client fs clock srv c)) = outbox c @ [''ERROR:Invalid request'']"
    by (simp add: handle_client_outbox handle_client_try_def decode_def)
next
  assume a: "fst (recv 1024 c) = Inr request" "startswith request ''GET:'' \<or> request = ''LIST''"
  then obtain c1 where r: "recv 1024 c = (Inr request, c1)" by (cases "recv 1024 c") auto
  show "filter is_invalid_request (log (fst (handle_client fs clock srv c))) =
        filter is_invalid_request (log srv)"
    using a(2) r
    by (auto simp: handle_client_log handle_client_try_def decode_def case_prod_beta
             split: sum.split)
qed

theorem first_read_witness:
  "outbox (snd (handle_client example_fs (0, 1) (example_server ''/srv/files'') (fresh_conn []))) = [] \<and>
   outbox (snd (handle_client example_fs (0, 1) (example_server ''/srv/files'')
      (fresh_conn [Inr ''HELLO'']))) = [''ERROR:Invalid request''] \<and>
   filter is_invalid_request (log (fst (handle_client example_fs (0, 1) (example_server ''/srv/files'')
      (fresh_conn [Inr ''LIST''])))) = []"
  using first_read_decides_the_invalid_request_response
      [where c = "fresh_conn []" and e = SocketTimeout and fs = example_fs and clock = "(0, 1)"
         and srv = "example_server ''/srv/files''"]
    first_read_decides_the_invalid_request_response
      [where c = "fresh_conn [Inr ''HELLO'']" and request = "''HELLO''" and fs = example_fs
         and clock = "(0, 1)" and srv = "example_server ''/srv/files''"]
    first_read_decides_the_invalid_request_response
      [where c = "fresh_conn [Inr ''LIST'']" and request = "''LIST''" and fs = example_fs
         and clock = "(0, 1)" and srv = "example_server ''/srv/files''"]
  by (simp add: fresh_conn_def example_server_def recv_def recv_blocking_def startswith_def byte_def)

text \<open>
  The claim as the specification states it fails: a first read that returns no bytes is
  answered with \<open>ERROR:Invalid request\<close>.
\<close>

theorem empty_read_counterexample:
  "fst (recv 1024 (fresh_conn [Inr ''''])) = Inr '''' \<and>
   outbox (snd (handle_client example_fs (0, 1) (example_server ''/srv/files'')
      (fresh_conn [Inr '''']))) = [''ERROR:Invalid request'']"
  by (simp add: handle_client_def handle_client_try_def recv_def recv_blocking_def send_def
        decode_def close_def logging_def fresh_conn_def example_server_def startswith_def)

end
